theory Spec2Isabelle
  imports Complex_Main
begin

section \<open>Field validator of \<open>data_validation.py\<close>\<close>

text \<open>
  The development embeds \<open>FinancialDataValidator.validate_field\<close> and
  \<open>FinancialDataValidator._apply_rule\<close> together with the parts of the Python
  runtime they call: \<open>str.strip\<close>, \<open>float\<close>, comparisons, the fixed regular
  expressions and \<open>datetime.strptime\<close> for the four formats of the DATE rule.

  Conventions of the embedding.
  \<^item> A Python \<open>str\<close> is a \<open>string\<close> whose characters are the code points
    U+0000 to U+00FF, one \<open>char\<close> per code point. The currency symbols beyond that
    range (euro, rupee) cannot occur in such a string.
  \<^item> A raised exception is the \<open>Inl\<close> of a sum, a returned value its \<open>Inr\<close>.
  \<^item> The interpreter's bound on the call stack is the depth argument of
    \<open>apply_rule\<close>: a call that finds no frame left raises \<open>RecursionError\<close>.
\<close>

subsection \<open>Characters and \<open>str\<close> methods\<close>

definition is_digit :: "char \<Rightarrow> bool" where
  "is_digit c = (c \<in> set ''0123456789'')"

text \<open>\<open>str.isspace\<close> and the class \<open>\s\<close> of \<open>re\<close> on U+0000 to U+00FF.\<close>

definition is_space :: "char \<Rightarrow> bool" where
  "is_space c = (c \<in> set [CHR 0x09, CHR 0x0A, CHR 0x0B, CHR 0x0C, CHR 0x0D,
     CHR 0x1C, CHR 0x1D, CHR 0x1E, CHR 0x1F, CHR 0x20, CHR 0x85, CHR 0xA0])"

definition strip :: "string \<Rightarrow> string" where
  "strip s = rev (dropWhile is_space (rev (dropWhile is_space s)))"

definition digit_val :: "char \<Rightarrow> nat" where
  "digit_val c = of_char c - 48"

text \<open>\<open>int\<close> of a run of decimal digits.\<close>

definition nat_of_digits :: "string \<Rightarrow> nat" where
  "nat_of_digits ds = foldl (\<lambda>n c. 10 * n + digit_val c) 0 ds"

text \<open>\<open>str.lower\<close> on U+0000 to U+00FF.\<close>

definition ascii_upper_chars :: string where
  "ascii_upper_chars = ''ABCDEFGHIJKLMNOPQRSTUVWXYZ''"

definition ascii_lower_chars :: string where
  "ascii_lower_chars = ''abcdefghijklmnopqrstuvwxyz''"

definition latin_upper_chars :: string where
  "latin_upper_chars =
    [CHR 0xC0, CHR 0xC1, CHR 0xC2, CHR 0xC3, CHR 0xC4, CHR 0xC5, CHR 0xC6, CHR 0xC7,
     CHR 0xC8, CHR 0xC9, CHR 0xCA, CHR 0xCB, CHR 0xCC, CHR 0xCD, CHR 0xCE, CHR 0xCF,
     CHR 0xD0, CHR 0xD1, CHR 0xD2, CHR 0xD3, CHR 0xD4, CHR 0xD5, CHR 0xD6, CHR 0xD8,
     CHR 0xD9, CHR 0xDA, CHR 0xDB, CHR 0xDC, CHR 0xDD, CHR 0xDE]"

definition latin_lower_chars :: string where
  "latin_lower_chars =
    [CHR 0xE0, CHR 0xE1, CHR 0xE2, CHR 0xE3, CHR 0xE4, CHR 0xE5, CHR 0xE6, CHR 0xE7,
     CHR 0xE8, CHR 0xE9, CHR 0xEA, CHR 0xEB, CHR 0xEC, CHR 0xED, CHR 0xEE, CHR 0xEF,
     CHR 0xF0, CHR 0xF1, CHR 0xF2, CHR 0xF3, CHR 0xF4, CHR 0xF5, CHR 0xF6, CHR 0xF8,
     CHR 0xF9, CHR 0xFA, CHR 0xFB, CHR 0xFC, CHR 0xFD, CHR 0xFE]"

definition lower_char :: "char \<Rightarrow> char" where
  "lower_char c =
     (case map_of (zip (ascii_upper_chars @ latin_upper_chars)
                       (ascii_lower_chars @ latin_lower_chars)) c of
        None \<Rightarrow> c
      | Some l \<Rightarrow> l)"

definition lower :: "string \<Rightarrow> string" where
  "lower s = map lower_char s"

subsection \<open>Floats\<close>

text \<open>
  A \<open>float\<close> is a binary64 value: a finite one is given by the rational it
  denotes, and every finite value built below is the result of \<open>float_of_ratio\<close>,
  which rounds to the nearest representable value, ties to even. The two zeros are
  identified.
\<close>

datatype pyfloat = Fin rat | PInf | NInf | NaN

fun ilog2 :: "nat \<Rightarrow> nat" where
  "ilog2 n = (if n < 2 then 0 else Suc (ilog2 (n div 2)))"

declare ilog2.simps [simp del]

text \<open>The integer nearest to \<open>p / q\<close>, ties to even.\<close>

definition rne :: "nat \<Rightarrow> nat \<Rightarrow> nat" where
  "rne p q = (let n = p div q; r = p mod q in
     if 2 * r < q then n
     else if q < 2 * r then n + 1
     else if even n then n else n + 1)"

definition pow2 :: "int \<Rightarrow> rat" where
  "pow2 k = (if 0 \<le> k then 2 ^ nat k else 1 / 2 ^ nat (- k))"

text \<open>\<open>2 ^ k \<le> p / q\<close>, for any integer \<open>k\<close>.\<close>

definition ge_pow2 :: "nat \<Rightarrow> nat \<Rightarrow> int \<Rightarrow> bool" where
  "ge_pow2 p q k = (if 0 \<le> k then q * 2 ^ nat k \<le> p else q \<le> p * 2 ^ nat (- k))"

text \<open>
  The binary64 value nearest to \<open>\<plusminus> p / q\<close> (\<open>q > 0\<close>): 53 significant bits,
  least exponent \<open>-1074\<close>, an infinity from \<open>2 ^ 1024\<close> on.
\<close>

definition float_of_ratio :: "bool \<Rightarrow> nat \<Rightarrow> nat \<Rightarrow> pyfloat" where
  "float_of_ratio neg p q =
     (if p = 0 then Fin 0
      else let e0 = int (ilog2 p) - int (ilog2 q);
               e = (if ge_pow2 p q e0 then e0 else e0 - 1);
               k = max (e - 52) (- 1074);
               n = (if 0 \<le> k then rne p (q * 2 ^ nat k) else rne (p * 2 ^ nat (- k)) q)
           in if n = 0 then Fin 0
              else if 1024 \<le> int (ilog2 n) + k then (if neg then NInf else PInf)
              else Fin ((if neg then - 1 else 1) * of_nat n * pow2 k))"

text \<open>Comparison of floats: every comparison with a NaN is false.\<close>

fun flt :: "pyfloat \<Rightarrow> pyfloat \<Rightarrow> bool" where
  "flt NaN _ = False"
| "flt _ NaN = False"
| "flt (Fin a) (Fin b) = (a < b)"
| "flt NInf NInf = False"
| "flt NInf _ = True"
| "flt _ NInf = False"
| "flt PInf _ = False"
| "flt _ PInf = True"

fun fle :: "pyfloat \<Rightarrow> pyfloat \<Rightarrow> bool" where
  "fle NaN _ = False"
| "fle _ NaN = False"
| "fle a b = (a = b \<or> flt a b)"

text \<open>Division of a float by the integer 100.\<close>

definition fdiv100 :: "pyfloat \<Rightarrow> pyfloat" where
  "fdiv100 f = (case f of
       Fin r \<Rightarrow> (let (a, b) = quotient_of r in float_of_ratio (a < 0) (nat \<bar>a\<bar>) (nat b * 100))
     | _ \<Rightarrow> f)"


subsection \<open>\<open>float\<close> of a string\<close>

text \<open>
  The white space \<open>float\<close> strips at both ends: the ASCII white space and the
  white space beyond ASCII (which it first turns into spaces); the separators
  U+001C to U+001F are not among them.
\<close>

definition float_space :: "char \<Rightarrow> bool" where
  "float_space c = (c \<in> set [CHR 0x09, CHR 0x0A, CHR 0x0B, CHR 0x0C, CHR 0x0D,
     CHR 0x20, CHR 0x85, CHR 0xA0])"

definition float_strip :: "string \<Rightarrow> string" where
  "float_strip s = rev (dropWhile float_space (rev (dropWhile float_space s)))"

text \<open>An underscore is accepted only between two digits.\<close>

fun underscores_ok :: "char \<Rightarrow> string \<Rightarrow> bool" where
  "underscores_ok prev [] = (prev \<noteq> CHR ''_'')"
| "underscores_ok prev (c # cs) =
     ((if c = CHR ''_'' then is_digit prev
       else if prev = CHR ''_'' then is_digit c else True)
      \<and> underscores_ok c cs)"

definition ascii_lower :: "char \<Rightarrow> char" where
  "ascii_lower c =
     (case map_of (zip ascii_upper_chars ascii_lower_chars) c of
        None \<Rightarrow> c
      | Some l \<Rightarrow> l)"

definition split_sign :: "string \<Rightarrow> bool \<times> string" where
  "split_sign s = (case s of
       [] \<Rightarrow> (False, [])
     | c # r \<Rightarrow> if c = CHR ''-'' then (True, r)
                else if c = CHR ''+'' then (False, r) else (False, s))"

text \<open>The float nearest to \<open>\<plusminus> m * 10 ^ k\<close>.\<close>

definition float_of_decimal :: "bool \<Rightarrow> nat \<Rightarrow> int \<Rightarrow> pyfloat" where
  "float_of_decimal neg m k =
     (if 0 \<le> k then float_of_ratio neg (m * 10 ^ nat k) 1
      else float_of_ratio neg m (10 ^ nat (- k)))"

text \<open>
  The grammar of \<open>float(s)\<close> for a string is a sign, then \<open>inf\<close>,
  \<open>infinity\<close> or \<open>nan\<close> in any case, or a decimal number: digits with an
  optional fraction and an optional exponent, at least one digit before the exponent.
  \<open>None\<close> is the \<open>ValueError\<close>.
\<close>

text \<open>The digits of the fraction, and what follows the fraction.\<close>

definition fraction_digits :: "string \<Rightarrow> string" where
  "fraction_digits r = (case r of
       [] \<Rightarrow> []
     | c # t \<Rightarrow> if c = CHR ''.'' then takeWhile is_digit t else [])"

definition fraction_rest :: "string \<Rightarrow> string" where
  "fraction_rest r = (case r of
       [] \<Rightarrow> []
     | c # t \<Rightarrow> if c = CHR ''.'' then dropWhile is_digit t else r)"

text \<open>The exponent after the letter: a sign and at least one digit.\<close>

definition parse_exponent :: "string \<Rightarrow> int option" where
  "parse_exponent r = (case split_sign r of
       (eneg, ds) \<Rightarrow>
         if ds \<noteq> [] \<and> list_all is_digit ds
         then Some (if eneg then - int (nat_of_digits ds) else int (nat_of_digits ds))
         else None)"

definition parse_decimal :: "bool \<Rightarrow> string \<Rightarrow> pyfloat option" where
  "parse_decimal neg body =
     (let ip = takeWhile is_digit body;
          fp = fraction_digits (dropWhile is_digit body);
          r2 = fraction_rest (dropWhile is_digit body);
          m = nat_of_digits (ip @ fp)
      in if ip = [] \<and> fp = [] then None
         else (case r2 of
              [] \<Rightarrow> Some (float_of_decimal neg m (- int (length fp)))
            | c # r3 \<Rightarrow>
                if c = CHR ''e'' \<or> c = CHR ''E''
                then (case parse_exponent r3 of
                     None \<Rightarrow> None
                   | Some x \<Rightarrow> Some (float_of_decimal neg m (x - int (length fp))))
                else None))"

definition py_float :: "string \<Rightarrow> pyfloat option" where
  "py_float s =
     (if \<not> underscores_ok (CHR 0x00) s then None
      else (case split_sign (float_strip (filter (\<lambda>c. c \<noteq> CHR ''_'') s)) of
           (neg, body) \<Rightarrow>
             (let low = map ascii_lower body
              in if low = ''inf'' \<or> low = ''infinity'' then Some (if neg then NInf else PInf)
                 else if low = ''nan'' then Some NaN
                 else parse_decimal neg body)))"

subsection \<open>Values and exceptions\<close>

datatype date = Date (year: nat) (month: nat) (day: nat)

text \<open>
  The values a caller passes: \<open>None\<close>, \<open>bool\<close>, \<open>int\<close>, \<open>float\<close>,
  \<open>str\<close>, \<open>datetime.date\<close> and \<open>datetime.datetime\<close> (a date with hour,
  minute, second and microsecond).
\<close>

datatype pyval =
    VNone
  | VBool bool
  | VInt int
  | VFloat pyfloat
  | VStr string
  | VDate date
  | VDatetime date nat nat nat nat

datatype exn = NameError | RecursionError | TypeError | OverflowError | ReError

text \<open>
  What the embedding takes from the Python library as it is: \<open>re.match\<close> on a
  pattern given by the caller (\<open>Inl ReError\<close> for a pattern that does not compile),
  and the text an f-string writes for a float.
\<close>

record pylib =
  re_match :: "string \<Rightarrow> string \<Rightarrow> exn + bool"
  float_repr :: "pyfloat \<Rightarrow> string"

text \<open>\<open>float(i)\<close> for an \<open>int\<close>: \<open>OverflowError\<close> when the nearest float is infinite.\<close>

definition float_of_int :: "int \<Rightarrow> exn + pyfloat" where
  "float_of_int i = (case float_of_ratio (i < 0) (nat \<bar>i\<bar>) 1 of
       Fin r \<Rightarrow> Inr (Fin r)
     | _ \<Rightarrow> Inl OverflowError)"

text \<open>
  The number a value is in a comparison with a float or an \<open>int\<close>; Python compares
  an \<open>int\<close> and a float by their exact values. \<open>None\<close>: the comparison raises
  \<open>TypeError\<close>.
\<close>

fun as_number :: "pyval \<Rightarrow> pyfloat option" where
  "as_number (VBool b) = Some (Fin (if b then 1 else 0))"
| "as_number (VInt i) = Some (Fin (of_int i))"
| "as_number (VFloat f) = Some f"
| "as_number _ = None"

definition num_lt :: "pyfloat \<Rightarrow> pyval \<Rightarrow> exn + bool" where
  "num_lt a v = (case as_number v of None \<Rightarrow> Inl TypeError | Some b \<Rightarrow> Inr (flt a b))"

definition num_gt :: "pyfloat \<Rightarrow> pyval \<Rightarrow> exn + bool" where
  "num_gt a v = (case as_number v of None \<Rightarrow> Inl TypeError | Some b \<Rightarrow> Inr (flt b a))"

text \<open>\<open>str\<close> of a decimal numeral, and what an f-string writes for a number.\<close>

fun digits_of :: "nat \<Rightarrow> string" where
  "digits_of n =
     (if n < 10 then [''0123456789'' ! n]
      else digits_of (n div 10) @ [''0123456789'' ! (n mod 10)])"

declare digits_of.simps [simp del]

definition str_of_int :: "int \<Rightarrow> string" where
  "str_of_int i = (if i < 0 then CHR ''-'' # digits_of (nat (- i)) else digits_of (nat i))"

definition pad :: "nat \<Rightarrow> string \<Rightarrow> string" where
  "pad n s = replicate (n - length s) CHR ''0'' @ s"

definition str_of_date :: "date \<Rightarrow> string" where
  "str_of_date d = pad 4 (digits_of (year d)) @ ''-'' @ pad 2 (digits_of (month d))
     @ ''-'' @ pad 2 (digits_of (day d))"

fun format_value :: "pylib \<Rightarrow> pyval \<Rightarrow> string" where
  "format_value L VNone = ''None''"
| "format_value L (VBool b) = (if b then ''True'' else ''False'')"
| "format_value L (VInt i) = str_of_int i"
| "format_value L (VFloat f) = float_repr L f"
| "format_value L (VStr s) = s"
| "format_value L (VDate d) = str_of_date d"
| "format_value L (VDatetime d h m s u) =
     str_of_date d @ '' '' @ pad 2 (digits_of h) @ '':'' @ pad 2 (digits_of m)
       @ '':'' @ pad 2 (digits_of s)
       @ (if u = 0 then [] else ''.'' @ pad 6 (digits_of u))"

text \<open>The truth value of an object in a condition.\<close>

fun truthy :: "pyval \<Rightarrow> bool" where
  "truthy VNone = False"
| "truthy (VBool b) = b"
| "truthy (VInt i) = (i \<noteq> 0)"
| "truthy (VFloat f) = (f \<noteq> Fin 0)"
| "truthy (VStr s) = (s \<noteq> [])"
| "truthy (VDate d) = True"
| "truthy (VDatetime d h m s u) = True"

subsection \<open>Regular expressions with fixed patterns\<close>

text \<open>
  The patterns written in the source are regular: they are matched by derivatives.
  A pattern \<open>^r$\<close> given to \<open>re.match\<close> accepts a string of the language of
  \<open>r\<close>, and such a string followed by one line feed.
\<close>

datatype rexp =
    Nul
  | Eps
  | Cls "char \<Rightarrow> bool"
  | Alt rexp rexp
  | Seq rexp rexp
  | Star rexp

fun nullable :: "rexp \<Rightarrow> bool" where
  "nullable Nul = False"
| "nullable Eps = True"
| "nullable (Cls P) = False"
| "nullable (Alt r s) = (nullable r \<or> nullable s)"
| "nullable (Seq r s) = (nullable r \<and> nullable s)"
| "nullable (Star r) = True"

fun deriv :: "char \<Rightarrow> rexp \<Rightarrow> rexp" where
  "deriv c Nul = Nul"
| "deriv c Eps = Nul"
| "deriv c (Cls P) = (if P c then Eps else Nul)"
| "deriv c (Alt r s) = Alt (deriv c r) (deriv c s)"
| "deriv c (Seq r s) =
     (if nullable r then Alt (Seq (deriv c r) s) (deriv c s) else Seq (deriv c r) s)"
| "deriv c (Star r) = Seq (deriv c r) (Star r)"

definition matches :: "rexp \<Rightarrow> string \<Rightarrow> bool" where
  "matches r s = nullable (foldl (\<lambda>r c. deriv c r) r s)"

definition re_match_anchored :: "rexp \<Rightarrow> string \<Rightarrow> bool" where
  "re_match_anchored r s =
     (if matches r s then True
      else (case rev s of [] \<Rightarrow> False | c # t \<Rightarrow> c = CHR 0x0A \<and> matches r (rev t)))"

definition Chr :: "char \<Rightarrow> rexp" where
  "Chr c = Cls (\<lambda>x. x = c)"

definition Opt :: "rexp \<Rightarrow> rexp" where
  "Opt r = Alt r Eps"

text \<open>\<open>r{n}\<close> and \<open>r{0,n}\<close>.\<close>

fun times :: "nat \<Rightarrow> rexp \<Rightarrow> rexp" where
  "times 0 r = Eps"
| "times (Suc n) r = Seq r (times n r)"

fun upto_times :: "nat \<Rightarrow> rexp \<Rightarrow> rexp" where
  "upto_times 0 r = Eps"
| "upto_times (Suc n) r = Opt (Seq r (upto_times n r))"

fun seqs :: "rexp list \<Rightarrow> rexp" where
  "seqs [] = Eps"
| "seqs (r # rs) = Seq r (seqs rs)"

definition is_alpha :: "char \<Rightarrow> bool" where
  "is_alpha c = (c \<in> set (ascii_upper_chars @ ascii_lower_chars))"

text \<open>\<open>^[a-zA-Z0-9._%+-]+@[a-zA-Z0-9.-]+\.[a-zA-Z]{2,}$\<close>\<close>

definition email_pattern :: rexp where
  "email_pattern =
     (let local = Cls (\<lambda>c. is_alpha c \<or> is_digit c \<or> c \<in> set ''._%+-'');
          dom = Cls (\<lambda>c. is_alpha c \<or> is_digit c \<or> c \<in> set ''.-'');
          letter = Cls is_alpha
      in seqs [local, Star local, Chr CHR ''@'', dom, Star dom, Chr CHR ''.'',
               times 2 letter, Star letter])"

text \<open>
  \<open>self.phone_patterns\<close> as the constructor sets it:
  \<open>^\+?1?[-.\s]?\(?([0-9]{3})\)?[-.\s]?([0-9]{3})[-.\s]?([0-9]{4})$\<close> and
  \<open>^\+?([0-9]{1,4})[-.\s]?([0-9]{3,4})[-.\s]?([0-9]{3,4})[-.\s]?([0-9]{3,4})$\<close>.
\<close>

definition phone_patterns :: "rexp list" where
  "phone_patterns =
     (let sep = Opt (Cls (\<lambda>c. c \<in> set ''-.'' \<or> is_space c));
          d = Cls is_digit;
          d34 = Seq (times 3 d) (upto_times 1 d)
      in [seqs [Opt (Chr CHR ''+''), Opt (Chr CHR ''1''), sep, Opt (Chr CHR ''(''),
                times 3 d, Opt (Chr CHR '')''), sep, times 3 d, sep, times 4 d],
          seqs [Opt (Chr CHR ''+''), Seq d (upto_times 3 d), sep, d34, sep, d34, sep, d34]])"

text \<open>\<open>^\d{2}-\d{7}$\<close> and \<open>^\d{3}-\d{2}-\d{4}$\<close>\<close>

definition ein_pattern :: rexp where
  "ein_pattern = seqs [times 2 (Cls is_digit), Chr CHR ''-'', times 7 (Cls is_digit)]"

definition ssn_pattern :: rexp where
  "ssn_pattern = seqs [times 3 (Cls is_digit), Chr CHR ''-'', times 2 (Cls is_digit),
                       Chr CHR ''-'', times 4 (Cls is_digit)]"

text \<open>
  \<open>re.search(r'[^\d.,]*([\d,]+\.?\d*)', s)\<close> and the text of its group: the search
  succeeds when \<open>s\<close> has a digit or a comma, and the group starts at the first of
  them (a start before it skips the characters that are no digit, comma or dot, and fails
  on a dot); it takes the digits and commas, one dot if it follows, and the digits after it.
\<close>

definition currency_group :: "string \<Rightarrow> string option" where
  "currency_group s =
     (let t = dropWhile (\<lambda>c. \<not> (is_digit c \<or> c = CHR '','')) s;
          a = takeWhile (\<lambda>c. is_digit c \<or> c = CHR '','') t;
          r = dropWhile (\<lambda>c. is_digit c \<or> c = CHR '','') t
      in if t = [] then None
         else (case r of
              [] \<Rightarrow> Some a
            | c # r' \<Rightarrow> if c = CHR ''.'' then Some (a @ ''.'' @ takeWhile is_digit r')
                        else Some a))"


subsection \<open>\<open>datetime.strptime\<close> for the formats of the DATE rule\<close>

text \<open>
  \<open>strptime\<close> turns a format into a regular expression, one group per directive,
  matches it against the whole string and builds the date from the groups; a string
  that does not match, or groups that are no date, raise \<open>ValueError\<close>, here
  \<open>None\<close>. The groups are
  \<open>%Y = \d\d\d\d\<close>, \<open>%m = 1[0-2]|0[1-9]|[1-9]\<close>,
  \<open>%d = 3[0-1]|[1-2]\d|0[1-9]|[1-9]| [1-9]\<close>, \<open>%H = 2[0-3]|[0-1]\d|\d\<close>,
  \<open>%M = [0-5]\d|\d\<close>, \<open>%S = 6[0-1]|[0-5]\d|\d\<close>, and a blank of the format
  is \<open>\s+\<close>. No group contains one of the separators, so the string is cut at them.
\<close>

fun split_on :: "char \<Rightarrow> string \<Rightarrow> string list" where
  "split_on c [] = [[]]"
| "split_on c (x # xs) =
     (if x = c then [] # split_on c xs
      else (case split_on c xs of [] \<Rightarrow> [[x]] | p # ps \<Rightarrow> (x # p) # ps))"

text \<open>One or two digits with a value from \<open>lo\<close> to \<open>hi\<close>.\<close>

definition field_num :: "nat \<Rightarrow> nat \<Rightarrow> string \<Rightarrow> nat option" where
  "field_num lo hi s =
     (if list_all is_digit s \<and> (length s = 1 \<or> length s = 2)
         \<and> lo \<le> nat_of_digits s \<and> nat_of_digits s \<le> hi
      then Some (nat_of_digits s) else None)"

definition field_Y :: "string \<Rightarrow> nat option" where
  "field_Y s = (if list_all is_digit s \<and> length s = 4 then Some (nat_of_digits s) else None)"

definition field_m :: "string \<Rightarrow> nat option" where
  "field_m s = field_num 1 12 s"

definition field_d :: "string \<Rightarrow> nat option" where
  "field_d s = (case s of
       [a, b] \<Rightarrow> if a = CHR '' '' then (if b \<in> set ''123456789'' then Some (digit_val b) else None)
                 else field_num 1 31 s
     | _ \<Rightarrow> field_num 1 31 s)"

definition field_H :: "string \<Rightarrow> nat option" where
  "field_H s = field_num 0 23 s"

definition field_M :: "string \<Rightarrow> nat option" where
  "field_M s = field_num 0 59 s"

definition field_S :: "string \<Rightarrow> nat option" where
  "field_S s = field_num 0 61 s"

definition is_leap :: "nat \<Rightarrow> bool" where
  "is_leap y = (y mod 4 = 0 \<and> (y mod 100 \<noteq> 0 \<or> y mod 400 = 0))"

definition days_in_month :: "nat \<Rightarrow> nat \<Rightarrow> nat" where
  "days_in_month y m =
     (if m = 2 then (if is_leap y then 29 else 28)
      else if m \<in> set [4, 6, 9, 11] then 30 else 31)"

text \<open>The constructor of a date: years 1 to 9999, a day the month has.\<close>

definition make_date :: "nat option \<Rightarrow> nat option \<Rightarrow> nat option \<Rightarrow> date option" where
  "make_date yo mo dd = (case (yo, mo, dd) of
       (Some y, Some m, Some d) \<Rightarrow>
         if 1 \<le> y \<and> y \<le> 9999 \<and> 1 \<le> m \<and> m \<le> 12 \<and> 1 \<le> d \<and> d \<le> days_in_month y m
         then Some (Date y m d) else None
     | _ \<Rightarrow> None)"

text \<open>The time of day a \<open>datetime\<close> accepts: the second is at most 59.\<close>

definition valid_time :: "nat option \<Rightarrow> nat option \<Rightarrow> nat option \<Rightarrow> bool" where
  "valid_time ho mo so = (case (ho, mo, so) of
       (Some h, Some m, Some s) \<Rightarrow> h \<le> 23 \<and> m \<le> 59 \<and> s \<le> 59
     | _ \<Rightarrow> False)"

text \<open>
  The day, the blank and the hour of \<open>%d %H\<close>: the hour is the digits at the end,
  the blank the white space before them, at least one character, the day the rest.
\<close>

definition split_day_hour :: "string \<Rightarrow> (string \<times> string) option" where
  "split_day_hour s =
     (let h = rev (takeWhile is_digit (rev s));
          r = dropWhile is_digit (rev s);
          d = rev (dropWhile is_space r)
      in if takeWhile is_space r = [] then None else Some (d, h))"

datatype date_format = Ymd | mdY | dmY | YmdHMS

text \<open>\<open>datetime.strptime(value, fmt).date()\<close>\<close>

fun strptime_date :: "string \<Rightarrow> date_format \<Rightarrow> date option" where
  "strptime_date s Ymd = (case split_on CHR ''-'' s of
       [y, m, d] \<Rightarrow> make_date (field_Y y) (field_m m) (field_d d)
     | _ \<Rightarrow> None)"
| "strptime_date s mdY = (case split_on CHR ''/'' s of
       [m, d, y] \<Rightarrow> make_date (field_Y y) (field_m m) (field_d d)
     | _ \<Rightarrow> None)"
| "strptime_date s dmY = (case split_on CHR ''/'' s of
       [d, m, y] \<Rightarrow> make_date (field_Y y) (field_m m) (field_d d)
     | _ \<Rightarrow> None)"
| "strptime_date s YmdHMS = (case split_on CHR ''-'' s of
       [y, m, rest] \<Rightarrow> (case split_on CHR '':'' rest of
            [dh, mi, se] \<Rightarrow> (case split_day_hour dh of
                 None \<Rightarrow> None
               | Some (d, h) \<Rightarrow>
                   if valid_time (field_H h) (field_M mi) (field_S se)
                   then make_date (field_Y y) (field_m m) (field_d d) else None)
          | _ \<Rightarrow> None)
     | _ \<Rightarrow> None)"

text \<open>\<open>['%Y-%m-%d', '%m/%d/%Y', '%d/%m/%Y', '%Y-%m-%d %H:%M:%S']\<close>\<close>

definition date_formats :: "date_format list" where
  "date_formats = [Ymd, mdY, dmY, YmdHMS]"

text \<open>The loop over the formats: the first that parses returns.\<close>

fun try_formats :: "string \<Rightarrow> date_format list \<Rightarrow> date option" where
  "try_formats s [] = None"
| "try_formats s (fmt # fmts) = (case strptime_date s fmt of
       Some d \<Rightarrow> Some d
     | None \<Rightarrow> try_formats s fmts)"

subsection \<open>The validator\<close>

datatype ValidationRule =
    REQUIRED | NUMERIC | POSITIVE | NEGATIVE | PERCENTAGE | CURRENCY | DATE
  | EMAIL | PHONE | TAX_ID | RANGE | LENGTH | REGEX | CUSTOM

record ValidationResult =
  is_valid :: bool
  errors :: "string list"
  warnings :: "string list"
  cleaned_value :: pyval

record ValidationRuleConfig =
  rule_type :: ValidationRule
  parameters :: "(string \<rightharpoonup> pyval) option"
  error_message :: "string option"
  warning_message :: "string option"

text \<open>\<open>ValidationResult(v, es, ws)\<close> leaves \<open>cleaned_value\<close> at \<open>None\<close>.\<close>

definition result :: "bool \<Rightarrow> string list \<Rightarrow> string list \<Rightarrow> pyval \<Rightarrow> ValidationResult" where
  "result v es ws c = \<lparr>is_valid = v, errors = es, warnings = ws, cleaned_value = c\<rparr>"

text \<open>\<open>ValidationRuleConfig(rule)\<close>\<close>

definition config :: "ValidationRule \<Rightarrow> ValidationRuleConfig" where
  "config r = \<lparr>rule_type = r, parameters = None, error_message = None,
                warning_message = None\<rparr>"

text \<open>\<open>message or default\<close>: \<open>None\<close> and the empty string give the default.\<close>

definition or_default :: "string option \<Rightarrow> string \<Rightarrow> string" where
  "or_default m d = (case m of None \<Rightarrow> d | Some t \<Rightarrow> if t = [] then d else t)"

text \<open>\<open>rule_config.parameters or {}\<close>, and \<open>params.get(key, default)\<close>.\<close>

definition params_of :: "ValidationRuleConfig \<Rightarrow> (string \<rightharpoonup> pyval)" where
  "params_of rc = (case parameters rc of None \<Rightarrow> Map.empty | Some m \<Rightarrow> m)"

definition get_param :: "(string \<rightharpoonup> pyval) \<Rightarrow> string \<Rightarrow> pyval \<Rightarrow> pyval" where
  "get_param m k d = (case m k of None \<Rightarrow> d | Some v \<Rightarrow> v)"

text \<open>
  The last statement of \<open>_apply_rule\<close>, \<open>return ValidationResult(True, [], [],
  cleaned_value)\<close>, reads a name that the function never binds and the module does not
  define: reaching it raises \<open>NameError\<close>.
\<close>

definition fall_through :: "exn + ValidationResult" where
  "fall_through = Inl NameError"

text \<open>\<open>value is None or value == '' or (isinstance(value, str) and value.strip() == '')\<close>\<close>

definition required_missing :: "pyval \<Rightarrow> bool" where
  "required_missing v = (case v of VNone \<Rightarrow> True | VStr s \<Rightarrow> strip s = [] | _ \<Rightarrow> False)"

text \<open>\<open>value is None or value == ''\<close>\<close>

definition is_empty :: "pyval \<Rightarrow> bool" where
  "is_empty v = (case v of VNone \<Rightarrow> True | VStr s \<Rightarrow> s = [] | _ \<Rightarrow> False)"

text \<open>The characters \<open>re.sub(r'[$,...\s]', '', ...)\<close> deletes: dollar, comma, pound,
  yen and white space.\<close>

definition numeric_noise :: "char \<Rightarrow> bool" where
  "numeric_noise c = (c \<in> set [CHR ''$'', CHR '','', CHR 0xA3, CHR 0xA5] \<or> is_space c)"

text \<open>The NUMERIC branch.\<close>

definition numeric_rule :: "pyval \<Rightarrow> ValidationRuleConfig \<Rightarrow> exn + ValidationResult" where
  "numeric_rule v rc = (case v of
       VStr s \<Rightarrow> (case py_float (filter (\<lambda>c. \<not> numeric_noise c) (strip s)) of
            Some f \<Rightarrow> Inr (result True [] [] (VFloat f))
          | None \<Rightarrow> Inr (result False [or_default (error_message rc) ''Invalid numeric value''] [] VNone))
     | VBool b \<Rightarrow> Inr (result True [] [] (VFloat (Fin (if b then 1 else 0))))
     | VInt i \<Rightarrow> (case float_of_int i of
            Inl e \<Rightarrow> Inl e
          | Inr f \<Rightarrow> Inr (result True [] [] (VFloat f)))
     | VFloat f \<Rightarrow> Inr (result True [] [] (VFloat f))
     | _ \<Rightarrow> Inr (result False [or_default (error_message rc) ''Value must be numeric''] [] VNone))"


text \<open>
  POSITIVE, NEGATIVE, PERCENTAGE and RANGE work on the outcome \<open>numeric_result\<close>
  of a nested call. Its cleaned value, read only when the outcome is valid, is then a
  float (lemma \<open>numeric_rule_valid_float\<close>); the comparison of any other value is
  not modelled and stands as \<open>TypeError\<close>.
\<close>

definition positive_check :: "ValidationRuleConfig \<Rightarrow> ValidationResult \<Rightarrow> exn + ValidationResult" where
  "positive_check rc numeric_result =
     (if \<not> is_valid numeric_result then Inr numeric_result
      else (case cleaned_value numeric_result of
           VFloat f \<Rightarrow>
             if fle f (Fin 0)
             then Inr (result False [or_default (error_message rc) ''Value must be positive''] [] VNone)
             else fall_through
         | _ \<Rightarrow> Inl TypeError))"

definition negative_check :: "ValidationRuleConfig \<Rightarrow> ValidationResult \<Rightarrow> exn + ValidationResult" where
  "negative_check rc numeric_result =
     (if \<not> is_valid numeric_result then Inr numeric_result
      else (case cleaned_value numeric_result of
           VFloat f \<Rightarrow>
             if fle (Fin 0) f
             then Inr (result False [or_default (error_message rc) ''Value must be negative''] [] VNone)
             else fall_through
         | _ \<Rightarrow> Inl TypeError))"

text \<open>\<open>isinstance(value, str) and '%' in value\<close>\<close>

definition has_percent :: "pyval \<Rightarrow> bool" where
  "has_percent v = (case v of VStr s \<Rightarrow> CHR ''%'' \<in> set s | _ \<Rightarrow> False)"

definition percentage_check ::
  "pyval \<Rightarrow> ValidationRuleConfig \<Rightarrow> ValidationResult \<Rightarrow> exn + ValidationResult" where
  "percentage_check v rc numeric_result =
     (if \<not> is_valid numeric_result then Inr numeric_result
      else (case cleaned_value numeric_result of
           VFloat f \<Rightarrow>
             (let val = (if has_percent v then fdiv100 f else f)
              in if \<not> (fle (Fin 0) val \<and> fle val (Fin 1))
                 then Inr (result False []
                        [or_default (warning_message rc) ''Percentage should be between 0% and 100%''] VNone)
                 else Inr (result True [] [] (VFloat val)))
         | _ \<Rightarrow> Inl TypeError))"

text \<open>\<open>bound is not None and val < bound\<close>, with the comparison given as \<open>cmp\<close>.\<close>

definition beyond :: "(pyfloat \<Rightarrow> pyval \<Rightarrow> exn + bool) \<Rightarrow> pyfloat \<Rightarrow> pyval \<Rightarrow> exn + bool" where
  "beyond cmp val bound = (if bound = VNone then Inr False else cmp val bound)"

definition range_check ::
  "pylib \<Rightarrow> ValidationRuleConfig \<Rightarrow> ValidationResult \<Rightarrow> exn + ValidationResult" where
  "range_check L rc numeric_result =
     (if \<not> is_valid numeric_result then Inr numeric_result
      else
        let min_val = get_param (params_of rc) ''min'' VNone;
            max_val = get_param (params_of rc) ''max'' VNone
        in (case cleaned_value numeric_result of
             VFloat val \<Rightarrow>
               (case beyond num_lt val min_val of
                  Inl e \<Rightarrow> Inl e
                | Inr too_low \<Rightarrow>
                    if too_low
                    then Inr (result False [''Value must be at least '' @ format_value L min_val] [] VNone)
                    else (case beyond num_gt val max_val of
                         Inl e \<Rightarrow> Inl e
                       | Inr too_high \<Rightarrow>
                           if too_high
                           then Inr (result False
                                  [''Value must not exceed '' @ format_value L max_val] [] VNone)
                           else fall_through))
           | _ \<Rightarrow> Inl TypeError))"

text \<open>The CURRENCY branch.\<close>

definition currency_rule :: "pyval \<Rightarrow> ValidationRuleConfig \<Rightarrow> exn + ValidationResult" where
  "currency_rule v rc = (case v of
       VStr s \<Rightarrow>
         (let failed = Inr (result False [or_default (error_message rc) ''Invalid currency format''] [] VNone)
          in case currency_group s of
               None \<Rightarrow> failed
             | Some g \<Rightarrow> (case py_float (filter (\<lambda>c. c \<noteq> CHR '','') g) of
                    Some amount \<Rightarrow> Inr (result True [] [] (VFloat amount))
                  | None \<Rightarrow> failed))
     | _ \<Rightarrow> fall_through)"

text \<open>The DATE branch: a \<open>datetime\<close> is an instance of \<open>date\<close>.\<close>

definition date_rule :: "pyval \<Rightarrow> ValidationRuleConfig \<Rightarrow> exn + ValidationResult" where
  "date_rule v rc = (case v of
       VDate d \<Rightarrow> Inr (result True [] [] v)
     | VDatetime d h m s u \<Rightarrow> Inr (result True [] [] v)
     | VStr s \<Rightarrow> (case try_formats s date_formats of
            Some parsed_date \<Rightarrow> Inr (result True [] [] (VDate parsed_date))
          | None \<Rightarrow> Inr (result False [or_default (error_message rc) ''Invalid date format''] [] VNone))
     | _ \<Rightarrow> fall_through)"

text \<open>The EMAIL branch.\<close>

definition email_rule :: "pyval \<Rightarrow> ValidationRuleConfig \<Rightarrow> exn + ValidationResult" where
  "email_rule v rc =
     (let failed = Inr (result False [or_default (error_message rc) ''Invalid email format''] [] VNone)
      in case v of
           VStr s \<Rightarrow> if re_match_anchored email_pattern s
                     then Inr (result True [] [] (VStr (lower s))) else failed
         | _ \<Rightarrow> failed)"

text \<open>The PHONE branch: the cleaned number keeps the digits and the plus signs.\<close>

definition phone_rule :: "pyval \<Rightarrow> ValidationRuleConfig \<Rightarrow> exn + ValidationResult" where
  "phone_rule v rc = (case v of
       VStr s \<Rightarrow>
         if list_ex (\<lambda>pattern. re_match_anchored pattern s) phone_patterns
         then Inr (result True [] [] (VStr (filter (\<lambda>c. is_digit c \<or> c = CHR ''+'') s)))
         else Inr (result False [or_default (error_message rc) ''Invalid phone format''] [] VNone)
     | _ \<Rightarrow> fall_through)"

text \<open>The TAX_ID branch: the patterns are tried on the digits and dashes of the value.\<close>

definition tax_id_rule :: "pyval \<Rightarrow> ValidationRuleConfig \<Rightarrow> exn + ValidationResult" where
  "tax_id_rule v rc = (case v of
       VStr s \<Rightarrow>
         (let cleaned = filter (\<lambda>c. is_digit c \<or> c = CHR ''-'') s
          in if re_match_anchored ein_pattern cleaned \<or> re_match_anchored ssn_pattern cleaned
             then Inr (result True [] [] (VStr cleaned))
             else Inr (result False [or_default (error_message rc) ''Invalid Tax ID format''] [] VNone))
     | _ \<Rightarrow> fall_through)"

text \<open>The LENGTH branch: \<open>max\<close> defaults to \<open>float('inf')\<close>.\<close>

definition length_rule :: "pylib \<Rightarrow> pyval \<Rightarrow> ValidationRuleConfig \<Rightarrow> exn + ValidationResult" where
  "length_rule L v rc = (case v of
       VStr s \<Rightarrow>
         (let min_len = get_param (params_of rc) ''min'' (VInt 0);
              max_len = get_param (params_of rc) ''max'' (VFloat PInf);
              n = Fin (of_nat (length s))
          in case num_lt n min_len of
               Inl e \<Rightarrow> Inl e
             | Inr too_short \<Rightarrow>
                 if too_short
                 then Inr (result False [''Minimum length is '' @ format_value L min_len] [] VNone)
                 else (case num_gt n max_len of
                      Inl e \<Rightarrow> Inl e
                    | Inr too_long \<Rightarrow>
                        if too_long
                        then Inr (result False [''Maximum length is '' @ format_value L max_len] [] VNone)
                        else fall_through))
     | _ \<Rightarrow> fall_through)"

text \<open>
  The REGEX branch. \<open>re.match\<close> raises \<open>TypeError\<close> for a pattern that is
  neither a string nor a compiled pattern.
\<close>

definition regex_rule :: "pylib \<Rightarrow> pyval \<Rightarrow> ValidationRuleConfig \<Rightarrow> exn + ValidationResult" where
  "regex_rule L v rc =
     (let pattern = get_param (params_of rc) ''pattern'' VNone
      in case v of
           VStr s \<Rightarrow>
             if truthy pattern
             then (case pattern of
                  VStr p \<Rightarrow> (case re_match L p s of
                       Inl e \<Rightarrow> Inl e
                     | Inr found \<Rightarrow>
                         if \<not> found
                         then Inr (result False
                                [or_default (error_message rc) ''Value doesn't match required pattern''] [] VNone)
                         else fall_through)
                | _ \<Rightarrow> Inl TypeError)
             else fall_through
         | _ \<Rightarrow> fall_through)"

text \<open>
  \<open>_apply_rule\<close>. The first argument after the library is the number of frames the
  call stack still has: the call itself takes one, and a nested call gets the rest.
  NEGATIVE calls \<open>_apply_rule\<close> with a NEGATIVE rule again.
\<close>

fun apply_rule :: "pylib \<Rightarrow> nat \<Rightarrow> pyval \<Rightarrow> ValidationRuleConfig \<Rightarrow> exn + ValidationResult" where
  "apply_rule L 0 v rc = Inl RecursionError"
| "apply_rule L (Suc depth) v rc =
     (if rule_type rc = REQUIRED \<and> required_missing v
      then Inr (result False [or_default (error_message rc) ''Field is required''] [] VNone)
      else if is_empty v then Inr (result True [] [] VNone)
      else (case rule_type rc of
           NUMERIC \<Rightarrow> numeric_rule v rc
         | POSITIVE \<Rightarrow> (case apply_rule L depth v (config NUMERIC) of
                Inl e \<Rightarrow> Inl e
              | Inr numeric_result \<Rightarrow> positive_check rc numeric_result)
         | NEGATIVE \<Rightarrow> (case apply_rule L depth v (config NEGATIVE) of
                Inl e \<Rightarrow> Inl e
              | Inr numeric_result \<Rightarrow> negative_check rc numeric_result)
         | PERCENTAGE \<Rightarrow> (case apply_rule L depth v (config NUMERIC) of
                Inl e \<Rightarrow> Inl e
              | Inr numeric_result \<Rightarrow> percentage_check v rc numeric_result)
         | CURRENCY \<Rightarrow> currency_rule v rc
         | DATE \<Rightarrow> date_rule v rc
         | EMAIL \<Rightarrow> email_rule v rc
         | PHONE \<Rightarrow> phone_rule v rc
         | TAX_ID \<Rightarrow> tax_id_rule v rc
         | RANGE \<Rightarrow> (case apply_rule L depth v (config NUMERIC) of
                Inl e \<Rightarrow> Inl e
              | Inr numeric_result \<Rightarrow> range_check L rc numeric_result)
         | LENGTH \<Rightarrow> length_rule L v rc
         | REGEX \<Rightarrow> regex_rule L v rc
         | REQUIRED \<Rightarrow> fall_through
         | CUSTOM \<Rightarrow> fall_through))"

text \<open>
  The loop of \<open>validate_field\<close>: the lists grow by each outcome, the cleaned value
  is replaced by each outcome that has one, and an exception of a rule ends the loop.
\<close>

fun validate_loop ::
  "pylib \<Rightarrow> nat \<Rightarrow> pyval \<Rightarrow> ValidationRuleConfig list \<Rightarrow> string list \<Rightarrow> string list \<Rightarrow> pyval
     \<Rightarrow> exn + (string list \<times> string list \<times> pyval)" where
  "validate_loop L depth v [] es ws cv = Inr (es, ws, cv)"
| "validate_loop L depth v (rule_config # rules) es ws cv =
     (case apply_rule L depth v rule_config of
        Inl e \<Rightarrow> Inl e
      | Inr r \<Rightarrow> validate_loop L depth v rules (es @ errors r) (ws @ warnings r)
                  (if cleaned_value r \<noteq> VNone then cleaned_value r else cv))"

definition validate_field ::
  "pylib \<Rightarrow> nat \<Rightarrow> pyval \<Rightarrow> ValidationRuleConfig list \<Rightarrow> exn + ValidationResult" where
  "validate_field L depth v rules =
     (case validate_loop L depth v rules [] [] v of
        Inl e \<Rightarrow> Inl e
      | Inr (es, ws, cv) \<Rightarrow> Inr (result (length es = 0) es ws cv))"


text \<open>
  A library for the closed examples below, none of which gives the REGEX rule a pattern
  or writes a float into a message: its \<open>re.match\<close> compiles no pattern.
\<close>

definition sample_lib :: pylib where
  "sample_lib = \<lparr>re_match = (\<lambda>p s. Inl ReError), float_repr = (\<lambda>f. [])\<rparr>"

text \<open>The \<open>RANGE\<close> rule of the rental rule set: \<open>{'min': 100, 'max': 50000}\<close>.\<close>

definition range_100_50000 :: ValidationRuleConfig where
  "range_100_50000 =
     (config RANGE)\<lparr>parameters := Some [''min'' \<mapsto> VInt 100, ''max'' \<mapsto> VInt 50000]\<rparr>"

section \<open>Evaluation\<close>

lemma ilog2_0 [simp]: "ilog2 0 = 0"
  by (simp add: ilog2.simps)

lemma ilog2_Suc0 [simp]: "ilog2 (Suc 0) = 0"
  by (simp add: ilog2.simps)

lemma ilog2_One [simp]: "ilog2 (numeral Num.One) = 0"
  by (simp add: ilog2.simps)

lemma ilog2_Bit0 [simp]: "ilog2 (numeral (Num.Bit0 k)) = Suc (ilog2 (numeral k))"
  by (subst ilog2.simps) (simp add: numeral_Bit0_div_2)

lemma ilog2_Bit1 [simp]: "ilog2 (numeral (Num.Bit1 k)) = Suc (ilog2 (numeral k))"
  by (subst ilog2.simps) (simp add: numeral_Bit1_div_2)

lemmas char_defs = is_digit_def is_space_def float_space_def numeric_noise_def

lemmas float_defs = float_of_ratio_def Let_def ge_pow2_def rne_def pow2_def
  float_of_decimal_def float_of_int_def

lemmas py_float_defs = py_float_def parse_decimal_def parse_exponent_def fraction_digits_def
  fraction_rest_def float_strip_def split_sign_def ascii_lower_def
  ascii_upper_chars_def ascii_lower_chars_def nat_of_digits_def digit_val_def

lemmas rule_defs = or_default_def required_missing_def is_empty_def fall_through_def
  strip_def params_of_def get_param_def

lemmas date_defs = field_num_def field_Y_def field_m_def field_d_def make_date_def
  days_in_month_def is_leap_def nat_of_digits_def digit_val_def

lemma config_sel [simp]:
  "rule_type (config r) = r" "parameters (config r) = None"
  "error_message (config r) = None" "warning_message (config r) = None"
  by (simp_all add: config_def)

lemma result_sel [simp]:
  "is_valid (result v es ws c) = v" "errors (result v es ws c) = es"
  "warnings (result v es ws c) = ws" "cleaned_value (result v es ws c) = c"
  by (simp_all add: result_def)

lemma result_eq [simp]:
  "(result v es ws c = result v' es' ws' c') = (v = v' \<and> es = es' \<and> ws = ws' \<and> c = c')"
  by (auto simp add: result_def)

lemma range_100_50000_sel [simp]:
  "rule_type range_100_50000 = RANGE"
  "params_of range_100_50000 = [''min'' \<mapsto> VInt 100, ''max'' \<mapsto> VInt 50000]"
  by (simp_all add: range_100_50000_def params_of_def config_def)

lemma apply_rule_numeric:
  "apply_rule L (Suc d) v (config NUMERIC) =
     (if is_empty v then Inr (result True [] [] VNone) else numeric_rule v (config NUMERIC))"
  by simp

lemma numeric_rule_valid_float:
  "numeric_rule v rc = Inr r \<Longrightarrow> is_valid r \<Longrightarrow> \<exists>f. cleaned_value r = VFloat f"
  by (auto simp add: numeric_rule_def split: pyval.splits option.splits sum.splits)

lemma numeric_str_42:
  "numeric_rule (VStr ''  42 '') rc = Inr (result True [] [] (VFloat (Fin 42)))"
  by (simp add: numeric_rule_def strip_def char_defs py_float_defs float_defs)

lemma numeric_str_abc:
  "numeric_rule (VStr ''abc'') (config NUMERIC) =
     Inr (result False [''Invalid numeric value''] [] VNone)"
  by (simp add: numeric_rule_def strip_def char_defs py_float_defs rule_defs)

lemma numeric_str_money:
  "numeric_rule (VStr ''$1,234.56'') rc =
     Inr (result True [] [] (VFloat (float_of_ratio False 123456 100)))"
  by (simp add: numeric_rule_def strip_def char_defs py_float_defs float_of_decimal_def)

lemma numeric_str_percent:
  "numeric_rule (VStr ''50%'') (config NUMERIC) =
     Inr (result False [''Invalid numeric value''] [] VNone)"
  by (simp add: numeric_rule_def strip_def char_defs py_float_defs rule_defs)

lemma numeric_str_cent:
  "numeric_rule (VStr ''0.01'') rc =
     Inr (result True [] [] (VFloat (float_of_ratio False 1 100)))"
  by (simp add: numeric_rule_def strip_def char_defs py_float_defs float_of_decimal_def)

text \<open>The floats \<open>1234.56\<close> and \<open>0.01\<close>, as \<open>float.as_integer_ratio\<close> gives them.\<close>

lemma float_1234_56:
  "float_of_ratio False 123456 100 = Fin (2714826150374277 / 2199023255552)"
  by (simp add: float_defs)

lemma float_0_01:
  "float_of_ratio False 1 100 = Fin (5764607523034235 / 576460752303423488)"
  by (simp add: float_defs)


section \<open>The loop of \<open>validate_field\<close>\<close>

lemma validate_loop_returns:
  "list_all2 (\<lambda>rc r. apply_rule L d v rc = Inr r) rules rs \<Longrightarrow>
   validate_loop L d v rules es ws cv =
     Inr (es @ concat (map errors rs), ws @ concat (map warnings rs),
          foldl (\<lambda>c r. if cleaned_value r \<noteq> VNone then cleaned_value r else c) cv rs)"
proof (induction rules rs arbitrary: es ws cv rule: list_all2_induct)
  case Nil
  show ?case by simp
next
  case (Cons rc r rules rs)
  from Cons.hyps(1) Cons.IH show ?case by simp
qed

text \<open>The first rule that raises ends the validation with its exception.\<close>

lemma validate_loop_raises:
  "list_all2 (\<lambda>rc r. apply_rule L d v rc = Inr r) pre rs \<Longrightarrow>
   apply_rule L d v rc = Inl e \<Longrightarrow>
   validate_loop L d v (pre @ rc # post) es ws cv = Inl e"
proof (induction pre rs arbitrary: es ws cv rule: list_all2_induct)
  case Nil
  then show ?case by simp
next
  case (Cons p r pre rs)
  then show ?case by simp
qed

lemma validate_field_raises:
  "list_all2 (\<lambda>rc r. apply_rule L d v rc = Inr r) pre rs \<Longrightarrow>
   apply_rule L d v rc = Inl e \<Longrightarrow>
   validate_field L d v (pre @ rc # post) = Inl e"
  by (simp add: validate_field_def validate_loop_raises)

lemma apply_rule_empty:
  "is_empty v \<Longrightarrow> rule_type rc \<noteq> REQUIRED \<Longrightarrow>
   apply_rule L (Suc d) v rc = Inr (result True [] [] VNone)"
  by simp

lemma validate_loop_empty:
  "is_empty v \<Longrightarrow> list_all (\<lambda>rc. rule_type rc \<noteq> REQUIRED) rules \<Longrightarrow>
   validate_loop L (Suc d) v rules es ws cv = Inr (es, ws, cv)"
  by (induction rules arbitrary: es ws cv) (simp_all del: apply_rule.simps add: apply_rule_empty)

section \<open>The rules\<close>

text \<open>
  NEGATIVE on a value that is not empty calls itself with the same value until the
  stack is used up: whatever the depth, the call raises \<open>RecursionError\<close>.
\<close>

lemma negative_raises:
  "rule_type rc = NEGATIVE \<Longrightarrow> \<not> is_empty v \<Longrightarrow> apply_rule L d v rc = Inl RecursionError"
proof (induction d arbitrary: rc)
  case 0
  show ?case by simp
next
  case (Suc d)
  have "apply_rule L d v (config NEGATIVE) = Inl RecursionError"
    using Suc.IH [of "config NEGATIVE"] Suc.prems(2) by simp
  with Suc.prems show ?case by simp
qed

text \<open>
  PERCENTAGE on the \<open>int\<close> 150: the outcome of the rule is flagged invalid and
  carries a warning and no error; the merged outcome is valid and keeps the input.
\<close>

lemma percentage_150_rule:
  "apply_rule L (Suc (Suc d)) (VInt 150) (config PERCENTAGE) =
     Inr (result False [] [''Percentage should be between 0% and 100%''] VNone)"
  by (simp add: rule_defs numeric_rule_def float_defs percentage_check_def has_percent_def)

lemma percentage_150_field:
  "validate_field L (Suc (Suc d)) (VInt 150) [config PERCENTAGE] =
     Inr (result True [] [''Percentage should be between 0% and 100%''] (VInt 150))"
  by (simp add: validate_field_def percentage_150_rule del: apply_rule.simps)

text \<open>A string of blanks is not skipped: NUMERIC parses it and fails.\<close>

lemma numeric_blank_field:
  "validate_field L (Suc d) (VStr ''   '') [config NUMERIC] =
     Inr (result False [''Invalid numeric value''] [] (VStr ''   ''))"
  by (simp add: validate_field_def is_empty_def numeric_rule_def strip_def char_defs
      py_float_defs or_default_def)

text \<open>With no rule the outcome carries the input as its cleaned value.\<close>

lemma no_rules_field: "validate_field L d v [] = Inr (result True [] [] v)"
  by (simp add: validate_field_def)

section \<open>The formats of the DATE rule\<close>

lemma split_on_nonempty: "split_on c s \<noteq> []"
  by (induction s) (auto split: list.splits)

lemma split_on_single: "c \<notin> set s \<Longrightarrow> split_on c s = [s]"
  by (induction s) auto

lemma split_on_separator: "1 < length (split_on c s) \<Longrightarrow> c \<in> set s"
  using split_on_single [of c s] by force

lemma split_on_covers:
  "x \<in> set s \<Longrightarrow> x \<noteq> c \<Longrightarrow> \<exists>p \<in> set (split_on c s). x \<in> set p"
proof (induction s)
  case Nil
  then show ?case by simp
next
  case (Cons a s)
  show ?case
  proof (cases "a = c")
    case True
    with Cons show ?thesis by auto
  next
    case False
    obtain p ps where sp: "split_on c s = p # ps"
      using split_on_nonempty [of c s] by (cases "split_on c s") auto
    show ?thesis
    proof (cases "x = a")
      case True
      with False sp show ?thesis by simp
    next
      case xa: False
      with Cons.prems have "x \<in> set s" by simp
      with Cons.IH Cons.prems(2) obtain q where "q \<in> set (p # ps)" "x \<in> set q"
        using sp by auto
      with False sp show ?thesis by auto
    qed
  qed
qed

lemma field_num_digits: "field_num lo hi s = Some n \<Longrightarrow> list_all is_digit s"
  by (simp add: field_num_def split: if_splits)

lemma field_Y_chars: "field_Y s = Some n \<Longrightarrow> CHR ''/'' \<notin> set s"
  by (auto simp add: field_Y_def list_all_iff is_digit_def split: if_splits)

lemma field_m_chars: "field_m s = Some n \<Longrightarrow> CHR ''/'' \<notin> set s"
  by (auto simp add: field_m_def list_all_iff is_digit_def dest!: field_num_digits)

lemma field_d_chars: "field_d s = Some n \<Longrightarrow> CHR ''/'' \<notin> set s"
  by (auto simp add: field_d_def list_all_iff is_digit_def dest!: field_num_digits
      split: list.splits if_splits)

lemma make_date_Some:
  "make_date yo mo dd = Some d \<Longrightarrow> \<exists>y m n. yo = Some y \<and> mo = Some m \<and> dd = Some n"
  by (auto simp add: make_date_def split: option.splits)

text \<open>A string with a slash is no \<open>%Y-%m-%d\<close> date; a \<open>%m/%d/%Y\<close> date has one.\<close>

lemma strptime_Ymd_no_slash:
  assumes "strptime_date s Ymd = Some d"
  shows "CHR ''/'' \<notin> set s"
proof
  assume slash: "CHR ''/'' \<in> set s"
  from assms obtain y m dd where sp: "split_on CHR ''-'' s = [y, m, dd]"
    and mk: "make_date (field_Y y) (field_m m) (field_d dd) = Some d"
    by (auto split: list.splits)
  from make_date_Some [OF mk]
  have "CHR ''/'' \<notin> set y" "CHR ''/'' \<notin> set m" "CHR ''/'' \<notin> set dd"
    by (auto dest: field_Y_chars field_m_chars field_d_chars)
  moreover from split_on_covers [OF slash, of "CHR ''-''"] sp
  have "CHR ''/'' \<in> set y \<or> CHR ''/'' \<in> set m \<or> CHR ''/'' \<in> set dd" by auto
  ultimately show False by blast
qed

lemma strptime_mdY_slash:
  assumes "strptime_date s mdY = Some d"
  shows "CHR ''/'' \<in> set s"
proof -
  from assms have "1 < length (split_on CHR ''/'' s)"
    by (auto split: list.splits)
  then show ?thesis by (rule split_on_separator)
qed


section \<open>Integers that are floats\<close>

lemma ilog2_bounds: "0 < n \<Longrightarrow> 2 ^ ilog2 n \<le> n \<and> n < 2 ^ Suc (ilog2 n)"
proof (induction n rule: ilog2.induct)
  case (1 n)
  show ?case
  proof (cases "n < 2")
    case True
    with "1.prems" have "n = 1" by simp
    then show ?thesis by simp
  next
    case False
    then have pos: "0 < n div 2" by simp
    from "1.IH" [OF False pos]
    have lo: "2 ^ ilog2 (n div 2) \<le> n div 2" and hi: "n div 2 < 2 ^ Suc (ilog2 (n div 2))"
      by simp_all
    have eq: "ilog2 n = Suc (ilog2 (n div 2))"
      using False by (subst ilog2.simps) simp
    from lo have "2 * 2 ^ ilog2 (n div 2) \<le> n" by linarith
    moreover from hi have "n < 2 * 2 ^ Suc (ilog2 (n div 2))" by linarith
    ultimately show ?thesis by (simp add: eq)
  qed
qed

lemma ilog2_double: "0 < n \<Longrightarrow> ilog2 (2 * n) = Suc (ilog2 n)"
  by (subst ilog2.simps) simp

lemma ilog2_mult_pow2: "0 < n \<Longrightarrow> ilog2 (n * 2 ^ j) = ilog2 n + j"
proof (induction j)
  case 0
  show ?case by simp
next
  case (Suc j)
  have "ilog2 (n * 2 ^ Suc j) = ilog2 (2 * (n * 2 ^ j))"
    by (simp add: mult.commute mult.left_commute)
  also have "\<dots> = Suc (ilog2 (n * 2 ^ j))"
    using Suc.prems by (intro ilog2_double) simp
  finally show ?case using Suc by simp
qed

lemma ilog2_less: "0 < n \<Longrightarrow> n < 2 ^ m \<Longrightarrow> ilog2 n < m"
proof -
  assume pos: "0 < n" and lt: "n < 2 ^ m"
  from ilog2_bounds [OF pos] lt have "(2::nat) ^ ilog2 n < 2 ^ m" by linarith
  then show ?thesis by simp
qed

lemma rne_one [simp]: "rne p 1 = p" "rne p (Suc 0) = p"
  by (simp_all add: rne_def)

text \<open>A natural number below \<open>2 ^ 53\<close> is a float, with either sign.\<close>

lemma float_of_ratio_exact:
  assumes pos: "0 < p" and small: "p < 2 ^ 53"
  shows "float_of_ratio neg p 1 = Fin ((if neg then - 1 else 1) * of_nat p)"
proof -
  define j where "j = 52 - ilog2 p"
  have e52: "ilog2 p \<le> 52" using ilog2_less [OF pos small] by simp
  define e0 where "e0 = int (ilog2 p) - int (ilog2 1)"
  define e where "e = (if ge_pow2 p 1 e0 then e0 else e0 - 1)"
  define k where "k = max (e - 52) (- 1074)"
  define n where "n = (if 0 \<le> k then rne p (1 * 2 ^ nat k) else rne (p * 2 ^ nat (- k)) 1)"
  have unfolded: "float_of_ratio neg p 1 =
      (if p = 0 then Fin 0
       else if n = 0 then Fin 0
       else if 1024 \<le> int (ilog2 n) + k then (if neg then NInf else PInf)
       else Fin ((if neg then - 1 else 1) * of_nat n * pow2 k))"
    unfolding n_def k_def e_def e0_def float_of_ratio_def Let_def by (rule refl)
  have e0: "e0 = int (ilog2 p)" by (simp add: e0_def)
  have "ge_pow2 p 1 e0"
    using ilog2_bounds [OF pos] by (simp add: ge_pow2_def e0)
  then have e: "e = int (ilog2 p)" by (simp add: e_def e0)
  have k: "k = - int j" using e52 by (simp add: k_def e j_def)
  have n: "n = p * 2 ^ j"
  proof (cases "j = 0")
    case True
    then show ?thesis by (simp add: n_def k)
  next
    case False
    then show ?thesis by (simp add: n_def k)
  qed
  have npos: "n \<noteq> 0" using pos by (simp add: n)
  have "int (ilog2 n) + k = int (ilog2 p)"
    using ilog2_mult_pow2 [OF pos, of j] by (simp add: n k)
  then have fits: "\<not> 1024 \<le> int (ilog2 n) + k" using e52 by simp
  have val: "(of_nat n :: rat) * pow2 k = of_nat p"
    by (cases "j = 0") (simp_all add: n k pow2_def)
  have "float_of_ratio neg p 1 = Fin ((if neg then - 1 else 1) * (of_nat n * pow2 k))"
    using pos npos fits by (simp only: unfolded) (simp add: mult.assoc)
  then show ?thesis by (simp only: val)
qed

lemma float_of_int_exact:
  assumes "\<bar>i\<bar> < 2 ^ 53"
  shows "float_of_int i = Inr (Fin (of_int i))"
proof (cases "i = 0")
  case True
  then show ?thesis by (simp add: float_of_int_def float_of_ratio_def)
next
  case False
  then have pos: "0 < nat \<bar>i\<bar>" by simp
  from assms have small: "nat \<bar>i\<bar> < 2 ^ 53"
    by (simp add: nat_less_iff)
  have "(if i < 0 then - 1 else 1) * (of_nat (nat \<bar>i\<bar>) :: rat) = of_int i"
    by (cases "i < 0") simp_all
  with float_of_ratio_exact [OF pos small, of "i < 0"] show ?thesis
    by (simp add: float_of_int_def)
qed


text \<open>
  Values of \<open>float\<close> on strings, as Python prints them with
  \<open>float.as_integer_ratio\<close>: a value that is no binary fraction, a tie that goes to
  the even neighbour on either side, and a negative value.
\<close>

lemma py_float_examples:
  "py_float ''0.1'' = Some (Fin (3602879701896397 / 2 ^ 55))"
  "py_float ''9007199254740993'' = Some (Fin 9007199254740992)"
  "py_float ''9007199254740995'' = Some (Fin 9007199254740996)"
  "py_float ''-0.3'' = Some (Fin (- 5404319552844595 / 2 ^ 54))"
  "py_float ''1_0.5e1'' = Some (Fin 105)"
  "py_float ''-Infinity'' = Some NInf"
  "py_float ''1_e5'' = None"
  "py_float ''1e'' = None"
  "py_float ''.'' = None"
  by (simp_all add: py_float_defs char_defs float_defs)


section \<open>The percent sign\<close>

lemma dropWhile_keeps: "x \<in> set s \<Longrightarrow> \<not> P x \<Longrightarrow> x \<in> set (dropWhile P s)"
  by (induction s) auto

lemma trim_keeps:
  assumes "x \<in> set s" and "\<not> P x"
  shows "x \<in> set (rev (dropWhile P (rev (dropWhile P s))))"
proof -
  from assms have "x \<in> set (dropWhile P s)" by (rule dropWhile_keeps)
  then have "x \<in> set (rev (dropWhile P s))" by simp
  then have "x \<in> set (dropWhile P (rev (dropWhile P s)))"
    using assms(2) by (rule dropWhile_keeps)
  then show ?thesis by simp
qed

lemma split_sign_keeps:
  assumes "x \<in> set s" and "x \<noteq> CHR ''-''" and "x \<noteq> CHR ''+''"
  shows "x \<in> set (snd (split_sign s))"
proof (cases s)
  case Nil
  with assms(1) show ?thesis by simp
next
  case (Cons c t)
  with assms show ?thesis by (simp add: split_sign_def) blast
qed

lemma fraction_rest_keeps:
  assumes "x \<in> set r" and "x \<noteq> CHR ''.''" and "\<not> is_digit x"
  shows "x \<in> set (fraction_rest r)"
proof (cases r)
  case Nil
  with assms(1) show ?thesis by simp
next
  case (Cons c t)
  show ?thesis
  proof (cases "c = CHR ''.''")
    case True
    with Cons assms have "x \<in> set t" by simp
    then have "x \<in> set (dropWhile is_digit t)" using assms(3) by (rule dropWhile_keeps)
    with Cons True show ?thesis by (simp add: fraction_rest_def)
  next
    case False
    with Cons assms(1) show ?thesis by (simp add: fraction_rest_def)
  qed
qed

lemma not_digit_percent: "\<not> is_digit CHR ''%''"
  by (simp add: is_digit_def)

lemma parse_exponent_percent:
  assumes "CHR ''%'' \<in> set r"
  shows "parse_exponent r = None"
proof -
  obtain eneg ds where ss: "split_sign r = (eneg, ds)" by (cases "split_sign r")
  from assms have "CHR ''%'' \<in> set (snd (split_sign r))"
    by (rule split_sign_keeps) simp_all
  with ss have "CHR ''%'' \<in> set ds" by simp
  with not_digit_percent have "\<not> list_all is_digit ds"
    unfolding list_all_iff by blast
  with ss show ?thesis by (simp add: parse_exponent_def)
qed

lemma parse_decimal_percent:
  assumes "CHR ''%'' \<in> set body"
  shows "parse_decimal neg body = None"
proof -
  define r2 where "r2 = fraction_rest (dropWhile is_digit body)"
  from assms not_digit_percent have "CHR ''%'' \<in> set (dropWhile is_digit body)"
    by (rule dropWhile_keeps)
  then have in_r2: "CHR ''%'' \<in> set r2"
    unfolding r2_def using not_digit_percent by (intro fraction_rest_keeps) simp_all
  then obtain c r3 where r2: "r2 = c # r3" by (cases r2) simp_all
  show ?thesis
  proof (cases "c = CHR ''e'' \<or> c = CHR ''E''")
    case True
    with in_r2 r2 have "CHR ''%'' \<in> set r3" by auto
    then have "parse_exponent r3 = None" by (rule parse_exponent_percent)
    with True r2 show ?thesis
      by (simp add: parse_decimal_def Let_def r2_def [symmetric])
  next
    case False
    with r2 show ?thesis
      by (simp add: parse_decimal_def Let_def r2_def [symmetric])
  qed
qed

lemma ascii_lower_percent: "ascii_lower CHR ''%'' = CHR ''%''"
  by (simp add: ascii_lower_def ascii_upper_chars_def ascii_lower_chars_def)

text \<open>\<open>float\<close> rejects every string with a percent sign.\<close>

lemma py_float_percent:
  assumes pc: "CHR ''%'' \<in> set s"
  shows "py_float s = None"
proof (cases "underscores_ok (CHR 0x00) s")
  case False
  then show ?thesis by (simp add: py_float_def)
next
  case True
  define u where "u = float_strip (filter (\<lambda>c. c \<noteq> CHR ''_'') s)"
  obtain neg body where ss: "split_sign u = (neg, body)" by (cases "split_sign u")
  have "CHR ''%'' \<in> set (filter (\<lambda>c. c \<noteq> CHR ''_'') s)" using pc by simp
  then have "CHR ''%'' \<in> set u"
    unfolding u_def float_strip_def by (rule trim_keeps) (simp add: float_space_def)
  then have "CHR ''%'' \<in> set (snd (split_sign u))"
    by (rule split_sign_keeps) simp_all
  with ss have pb: "CHR ''%'' \<in> set body" by simp
  define low where "low = map ascii_lower body"
  from pb have pl: "CHR ''%'' \<in> set low"
    unfolding low_def using ascii_lower_percent by force
  have l1: "low \<noteq> ''inf''"
  proof
    assume "low = ''inf''"
    with pl show False by simp
  qed
  have l2: "low \<noteq> ''infinity''"
  proof
    assume "low = ''infinity''"
    with pl show False by simp
  qed
  have l3: "low \<noteq> ''nan''"
  proof
    assume "low = ''nan''"
    with pl show False by simp
  qed
  from pb have "parse_decimal neg body = None" by (rule parse_decimal_percent)
  with True ss l1 l2 l3 show ?thesis
    by (simp add: py_float_def u_def [symmetric] Let_def low_def [symmetric])
qed

lemma numeric_rule_percent:
  assumes "has_percent v"
  shows "numeric_rule v rc =
     Inr (result False [or_default (error_message rc) ''Invalid numeric value''] [] VNone)"
proof -
  from assms obtain s where v: "v = VStr s" and pc: "CHR ''%'' \<in> set s"
    by (cases v) (auto simp add: has_percent_def)
  have "CHR ''%'' \<in> set (strip s)"
    unfolding strip_def using pc by (rule trim_keeps) (simp add: is_space_def)
  then have "CHR ''%'' \<in> set (filter (\<lambda>c. \<not> numeric_noise c) (strip s))"
    by (simp add: numeric_noise_def is_space_def)
  then have "py_float (filter (\<lambda>c. \<not> numeric_noise c) (strip s)) = None"
    by (rule py_float_percent)
  with v show ?thesis by (simp add: numeric_rule_def)
qed

text \<open>
  On a string with a percent sign PERCENTAGE returns the failure of NUMERIC: the
  branch that divides by 100 is never taken.
\<close>

lemma percentage_rule_percent:
  assumes "has_percent v" and "rule_type rc = PERCENTAGE"
  shows "apply_rule L (Suc (Suc d)) v rc =
     Inr (result False [''Invalid numeric value''] [] VNone)"
proof -
  from assms(1) have ne: "\<not> is_empty v"
    by (cases v) (auto simp add: has_percent_def is_empty_def)
  from numeric_rule_percent [OF assms(1), of "config NUMERIC"] ne assms(2) show ?thesis
    by (simp add: percentage_check_def or_default_def)
qed

text \<open>REQUIRED on a value that is present reaches the last statement.\<close>

lemma required_present_raises:
  assumes "rule_type rc = REQUIRED" and "\<not> required_missing v"
  shows "apply_rule L (Suc d) v rc = Inl NameError"
proof -
  from assms(2) have "\<not> is_empty v"
    by (cases v) (auto simp add: required_missing_def is_empty_def strip_def)
  with assms show ?thesis by (simp add: fall_through_def)
qed

text \<open>
  POSITIVE never returns a valid outcome for a value that is not empty: it fails, or
  it raises.
\<close>

lemma positive_never_passes:
  assumes "rule_type rc = POSITIVE" and "\<not> is_empty v"
    and "apply_rule L d v rc = Inr r"
  shows "\<not> is_valid r"
proof (cases d)
  case 0
  with assms(3) show ?thesis by simp
next
  case (Suc d')
  show ?thesis
  proof (cases d')
    case 0
    with Suc assms show ?thesis by simp
  next
    case inner: (Suc d'')
    with Suc assms show ?thesis
      by (auto simp add: positive_check_def fall_through_def
          split: sum.splits if_splits pyval.splits)
  qed
qed


section \<open>The claims\<close>

text \<open>
  C1 (the code departs from the claim). The claim: \<open>validate_field\<close> never raises.
  The module's own self-test validates the revenue \<open>100000\<close> of a statement with
  the rules REQUIRED and POSITIVE. REQUIRED finds the value present and POSITIVE finds
  it positive, and each then reaches the last statement of \<open>_apply_rule\<close>, which
  reads the unbound name \<open>cleaned_value\<close>: the call raises \<open>NameError\<close>.
\<close>

theorem validate_field_revenue_raises:
  "validate_field L (Suc (Suc d)) (VInt 100000) [config REQUIRED, config POSITIVE]
     = Inl NameError"
  by (simp add: validate_field_def rule_defs)

text \<open>The same at the library of the examples, with a thousand frames.\<close>

theorem validate_field_revenue_raises_witness:
  "validate_field sample_lib 1000 (VInt 100000) [config REQUIRED, config POSITIVE]
     = Inl NameError"
  using validate_field_revenue_raises [of sample_lib 998] by simp

text \<open>
  C2. Whenever \<open>validate_field\<close> returns an outcome, the outcome is valid exactly
  when its list of errors is empty.
\<close>

theorem validate_field_valid_iff_no_errors:
  assumes "validate_field L d v rules = Inr r"
  shows "is_valid r = (errors r = [])"
  using assms by (auto simp add: validate_field_def split: sum.splits prod.splits)

text \<open>
  An instance: \<open>"abc"\<close> under NUMERIC and then DATE returns two errors and is
  not valid.
\<close>

theorem validate_field_valid_iff_no_errors_witness:
  "validate_field sample_lib (Suc 0) (VStr ''abc'') [config NUMERIC, config DATE]
     = Inr (result False [''Invalid numeric value'', ''Invalid date format''] [] (VStr ''abc''))
   \<and> is_valid (result False [''Invalid numeric value'', ''Invalid date format''] []
         (VStr ''abc''))
       = (errors (result False [''Invalid numeric value'', ''Invalid date format''] []
            (VStr ''abc'')) = [])"
proof -
  have run: "validate_field sample_lib (Suc 0) (VStr ''abc'') [config NUMERIC, config DATE]
     = Inr (result False [''Invalid numeric value'', ''Invalid date format''] [] (VStr ''abc''))"
    by (simp add: validate_field_def is_empty_def numeric_str_abc date_rule_def
        date_formats_def or_default_def required_missing_def)
  from validate_field_valid_iff_no_errors [OF run] run show ?thesis by simp
qed

text \<open>
  C3 (counterexample). The claim: the merged \<open>is_valid\<close> is the conjunction of
  the validity flags of the rules. PERCENTAGE on \<open>150\<close> returns an outcome flagged
  invalid, with a warning and no error, and the merged outcome is valid.
\<close>

theorem merged_validity_counterexample:
  "apply_rule sample_lib 1000 (VInt 150) (config PERCENTAGE)
     = Inr (result False [] [''Percentage should be between 0% and 100%''] VNone)
   \<and> validate_field sample_lib 1000 (VInt 150) [config PERCENTAGE]
     = Inr (result True [] [''Percentage should be between 0% and 100%''] (VInt 150))"
  using percentage_150_rule [of sample_lib 998] percentage_150_field [of sample_lib 998]
  by simp

text \<open>
  C3 (amended). When every rule of the list returns an outcome, \<open>validate_field\<close>
  returns the errors of all the outcomes concatenated in the order of the rules, the
  warnings likewise, and a validity flag that holds exactly when every outcome has no
  error; the cleaned value is that of the last outcome that has one, and the input when
  none has.
\<close>

theorem validate_field_merges_outcomes:
  assumes "list_all2 (\<lambda>rc r. apply_rule L d v rc = Inr r) rules rs"
  shows "validate_field L d v rules =
     Inr (result (list_all (\<lambda>r. errors r = []) rs) (concat (map errors rs))
            (concat (map warnings rs))
            (foldl (\<lambda>c r. if cleaned_value r \<noteq> VNone then cleaned_value r else c) v rs))"
  using validate_loop_returns [OF assms, of "[]" "[]" v]
  by (simp add: validate_field_def list_all_iff)

text \<open>
  An instance: \<open>"abc"\<close> under EMAIL, PERCENTAGE and NUMERIC fails three times,
  and the three errors are reported in the order of the rules.
\<close>

theorem validate_field_merges_outcomes_witness:
  "validate_field sample_lib (Suc (Suc 0)) (VStr ''abc'')
       [config EMAIL, config PERCENTAGE, config NUMERIC]
     = Inr (result False
         [''Invalid email format'', ''Invalid numeric value'', ''Invalid numeric value'']
         [] (VStr ''abc''))"
proof -
  have email: "apply_rule sample_lib (Suc (Suc 0)) (VStr ''abc'') (config EMAIL)
      = Inr (result False [''Invalid email format''] [] VNone)"
    by (simp add: rule_defs email_rule_def email_pattern_def re_match_anchored_def
        matches_def Chr_def Let_def is_alpha_def is_digit_def ascii_upper_chars_def
        ascii_lower_chars_def)
  have percentage: "apply_rule sample_lib (Suc (Suc 0)) (VStr ''abc'') (config PERCENTAGE)
      = Inr (result False [''Invalid numeric value''] [] VNone)"
    by (simp add: is_empty_def required_missing_def numeric_str_abc percentage_check_def)
  have numeric: "apply_rule sample_lib (Suc (Suc 0)) (VStr ''abc'') (config NUMERIC)
      = Inr (result False [''Invalid numeric value''] [] VNone)"
    by (simp add: is_empty_def numeric_str_abc)
  have all: "list_all2 (\<lambda>rc r. apply_rule sample_lib (Suc (Suc 0)) (VStr ''abc'') rc = Inr r)
      [config EMAIL, config PERCENTAGE, config NUMERIC]
      [result False [''Invalid email format''] [] VNone,
       result False [''Invalid numeric value''] [] VNone,
       result False [''Invalid numeric value''] [] VNone]"
    using email percentage numeric by (simp del: apply_rule.simps)
  from validate_field_merges_outcomes [OF all] show ?thesis by simp
qed

text \<open>
  C4 (the code departs from the claim). POSITIVE delegates to NUMERIC and fails on
  \<open>0\<close> and on \<open>-5\<close> with its own error, as the claim says. On \<open>"0.01"\<close>
  it does not pass: the value is positive, the branch returns nothing, and the last
  statement of \<open>_apply_rule\<close> raises \<open>NameError\<close>. NEGATIVE does not delegate
  to NUMERIC: it calls \<open>_apply_rule\<close> with a NEGATIVE rule again, and on \<open>-5\<close>
  the call raises \<open>RecursionError\<close> whatever the depth of the stack.
\<close>

theorem positive_negative_examples:
  "validate_field L (Suc (Suc d)) (VInt 0) [config POSITIVE]
     = Inr (result False [''Value must be positive''] [] (VInt 0))
   \<and> validate_field L (Suc (Suc d)) (VInt (- 5)) [config POSITIVE]
     = Inr (result False [''Value must be positive''] [] (VInt (- 5)))
   \<and> validate_field L (Suc (Suc d)) (VStr ''0.01'') [config POSITIVE] = Inl NameError
   \<and> validate_field L n (VInt (- 5)) [config NEGATIVE] = Inl RecursionError"
proof -
  have zero: "validate_field L (Suc (Suc d)) (VInt 0) [config POSITIVE]
     = Inr (result False [''Value must be positive''] [] (VInt 0))"
    by (simp add: validate_field_def rule_defs numeric_rule_def float_defs positive_check_def)
  have minus: "validate_field L (Suc (Suc d)) (VInt (- 5)) [config POSITIVE]
     = Inr (result False [''Value must be positive''] [] (VInt (- 5)))"
    by (simp add: validate_field_def rule_defs numeric_rule_def float_defs positive_check_def)
  have cent: "validate_field L (Suc (Suc d)) (VStr ''0.01'') [config POSITIVE] = Inl NameError"
    by (simp add: validate_field_def is_empty_def required_missing_def numeric_str_cent
        float_defs positive_check_def fall_through_def)
  have "apply_rule L n (VInt (- 5)) (config NEGATIVE) = Inl RecursionError"
    by (rule negative_raises) (simp_all add: is_empty_def)
  then have neg: "validate_field L n (VInt (- 5)) [config NEGATIVE] = Inl RecursionError"
    by (simp add: validate_field_def)
  from zero minus cent neg show ?thesis by simp
qed

text \<open>The same at the library of the examples, with a thousand frames.\<close>

theorem positive_negative_examples_witness:
  "validate_field sample_lib 1000 (VInt 0) [config POSITIVE]
     = Inr (result False [''Value must be positive''] [] (VInt 0))
   \<and> validate_field sample_lib 1000 (VInt (- 5)) [config POSITIVE]
     = Inr (result False [''Value must be positive''] [] (VInt (- 5)))
   \<and> validate_field sample_lib 1000 (VStr ''0.01'') [config POSITIVE] = Inl NameError
   \<and> validate_field sample_lib 1000 (VInt (- 5)) [config NEGATIVE] = Inl RecursionError"
  using positive_negative_examples [of sample_lib 998 1000] by simp

text \<open>
  C5 (the code departs from the claim). The claim: PERCENTAGE on \<open>"50%"\<close> yields
  the cleaned value \<open>0.5\<close>. NUMERIC does not delete the percent sign, \<open>float\<close>
  rejects \<open>"50%"\<close>, and PERCENTAGE returns NUMERIC's failure: the division by 100 is
  never reached. On the \<open>int\<close> 150 the outcome is as the claim says: valid, the
  warning, the cleaned value 150.
\<close>

theorem percentage_examples:
  "validate_field L (Suc (Suc d)) (VStr ''50%'') [config PERCENTAGE]
     = Inr (result False [''Invalid numeric value''] [] (VStr ''50%''))
   \<and> validate_field L (Suc (Suc d)) (VInt 150) [config PERCENTAGE]
     = Inr (result True [] [''Percentage should be between 0% and 100%''] (VInt 150))"
proof -
  have "validate_field L (Suc (Suc d)) (VStr ''50%'') [config PERCENTAGE]
     = Inr (result False [''Invalid numeric value''] [] (VStr ''50%''))"
    by (simp add: validate_field_def is_empty_def required_missing_def numeric_str_percent
        percentage_check_def)
  with percentage_150_field [of L d] show ?thesis by simp
qed

text \<open>The same at the library of the examples, with a thousand frames.\<close>

theorem percentage_examples_witness:
  "validate_field sample_lib 1000 (VStr ''50%'') [config PERCENTAGE]
     = Inr (result False [''Invalid numeric value''] [] (VStr ''50%''))
   \<and> validate_field sample_lib 1000 (VInt 150) [config PERCENTAGE]
     = Inr (result True [] [''Percentage should be between 0% and 100%''] (VInt 150))"
  using percentage_examples [of sample_lib 998] by simp

text \<open>
  C6 (counterexample). The claim: with no rule the outcome has no cleaned value. The
  loop starts from \<open>cleaned_value = value\<close>: with no rule the \<open>int\<close> 5 comes back
  as the cleaned value.
\<close>

theorem no_rules_cleaned_value_counterexample:
  "validate_field sample_lib 1000 (VInt 5) [] = Inr (result True [] [] (VInt 5))"
  by (rule no_rules_field)

text \<open>
  C6 (amended). When the value is \<open>None\<close> or the empty string and no rule of the
  list is REQUIRED, every rule is skipped and \<open>validate_field\<close> returns a valid
  outcome with no error and no warning, whose cleaned value is the input itself; with
  no rule, \<open>validate_field\<close> returns a valid outcome whose cleaned value is the
  input, for every input.
\<close>

theorem validate_field_skips_empty:
  "(is_empty v \<and> list_all (\<lambda>rc. rule_type rc \<noteq> REQUIRED) rules \<longrightarrow>
      validate_field L (Suc d) v rules = Inr (result True [] [] v))
   \<and> validate_field L d v [] = Inr (result True [] [] v)"
  by (simp add: validate_field_def validate_loop_empty)

text \<open>
  An instance: the empty string under POSITIVE, NEGATIVE, RANGE and a custom rule, and
  the \<open>int\<close> 5 under no rule.
\<close>

theorem validate_field_skips_empty_witness:
  "is_empty (VStr [])
   \<and> list_all (\<lambda>rc. rule_type rc \<noteq> REQUIRED)
        [config POSITIVE, config NEGATIVE, range_100_50000, config CUSTOM]
   \<and> validate_field sample_lib (Suc 0) (VStr [])
        [config POSITIVE, config NEGATIVE, range_100_50000, config CUSTOM]
       = Inr (result True [] [] (VStr []))
   \<and> validate_field sample_lib (Suc 0) (VInt 5) [] = Inr (result True [] [] (VInt 5))"
  using validate_field_skips_empty [of "VStr []"
      "[config POSITIVE, config NEGATIVE, range_100_50000, config CUSTOM]" sample_lib 0]
    validate_field_skips_empty [of "VInt 5" "[]" sample_lib "Suc 0"]
  by (simp add: is_empty_def)

text \<open>
  C7 (the code departs from the claim). RANGE with \<open>{min: 100, max: 50000}\<close> on
  \<open>99\<close> fails with the message of the claim. On \<open>100\<close> it does not pass: no
  bound is violated, the branch returns nothing, and the last statement of
  \<open>_apply_rule\<close> raises \<open>NameError\<close>.
\<close>

theorem range_examples:
  "validate_field L (Suc (Suc d)) (VInt 99) [range_100_50000]
     = Inr (result False [''Value must be at least 100''] [] (VInt 99))
   \<and> validate_field L (Suc (Suc d)) (VInt 100) [range_100_50000] = Inl NameError"
  by (simp add: validate_field_def is_empty_def required_missing_def fall_through_def
      get_param_def numeric_rule_def float_defs range_check_def beyond_def num_lt_def
      num_gt_def str_of_int_def digits_of.simps)

text \<open>The same at the library of the examples, with a thousand frames.\<close>

theorem range_examples_witness:
  "validate_field sample_lib 1000 (VInt 99) [range_100_50000]
     = Inr (result False [''Value must be at least 100''] [] (VInt 99))
   \<and> validate_field sample_lib 1000 (VInt 100) [range_100_50000] = Inl NameError"
  using range_examples [of sample_lib 998] by simp

text \<open>
  C8. NUMERIC takes the white space at both ends, the currency symbols, the commas
  and the inner white space out of a string and gives the rest to \<open>float\<close>; a
  float is accepted as it is and an \<open>int\<close> as the float of its value. On
  \<open>"$1,234.56"\<close> the cleaned value is the float \<open>1234.56\<close> (the binary64 value
  nearest to 123456 / 100, that is 2714826150374277 / 2199023255552), on
  \<open>"  42 "\<close> it is \<open>42.0\<close>, and \<open>"abc"\<close> fails with an error.
\<close>

theorem numeric_rule_cleans:
  "validate_field L (Suc d) (VStr ''$1,234.56'') [config NUMERIC]
     = Inr (result True [] [] (VFloat (float_of_ratio False 123456 100)))
   \<and> float_of_ratio False 123456 100 = Fin (2714826150374277 / 2199023255552)
   \<and> validate_field L (Suc d) (VStr ''  42 '') [config NUMERIC]
     = Inr (result True [] [] (VFloat (Fin 42)))
   \<and> validate_field L (Suc d) (VStr ''abc'') [config NUMERIC]
     = Inr (result False [''Invalid numeric value''] [] (VStr ''abc''))
   \<and> validate_field L (Suc d) (VFloat f) [config NUMERIC]
     = Inr (result True [] [] (VFloat f))
   \<and> (\<bar>i\<bar> < 2 ^ 53 \<longrightarrow>
        validate_field L (Suc d) (VInt i) [config NUMERIC]
          = Inr (result True [] [] (VFloat (Fin (of_int i)))))
   \<and> (s \<noteq> [] \<longrightarrow>
        validate_field L (Suc d) (VStr s) [config NUMERIC]
          = (case py_float (filter (\<lambda>c. \<not> numeric_noise c) (strip s)) of
               Some x \<Rightarrow> Inr (result True [] [] (VFloat x))
             | None \<Rightarrow> Inr (result False [''Invalid numeric value''] [] (VStr s))))"
proof -
  have money: "validate_field L (Suc d) (VStr ''$1,234.56'') [config NUMERIC]
     = Inr (result True [] [] (VFloat (float_of_ratio False 123456 100)))"
    by (simp add: validate_field_def is_empty_def numeric_str_money)
  have blanks: "validate_field L (Suc d) (VStr ''  42 '') [config NUMERIC]
     = Inr (result True [] [] (VFloat (Fin 42)))"
    by (simp add: validate_field_def is_empty_def numeric_str_42)
  have abc: "validate_field L (Suc d) (VStr ''abc'') [config NUMERIC]
     = Inr (result False [''Invalid numeric value''] [] (VStr ''abc''))"
    by (simp add: validate_field_def is_empty_def numeric_str_abc)
  have flo: "validate_field L (Suc d) (VFloat f) [config NUMERIC]
     = Inr (result True [] [] (VFloat f))"
    by (simp add: validate_field_def is_empty_def numeric_rule_def)
  have int: "\<bar>i\<bar> < 2 ^ 53 \<longrightarrow>
        validate_field L (Suc d) (VInt i) [config NUMERIC]
          = Inr (result True [] [] (VFloat (Fin (of_int i))))"
    by (simp add: validate_field_def is_empty_def numeric_rule_def float_of_int_exact)
  have str: "s \<noteq> [] \<longrightarrow>
        validate_field L (Suc d) (VStr s) [config NUMERIC]
          = (case py_float (filter (\<lambda>c. \<not> numeric_noise c) (strip s)) of
               Some x \<Rightarrow> Inr (result True [] [] (VFloat x))
             | None \<Rightarrow> Inr (result False [''Invalid numeric value''] [] (VStr s)))"
    by (simp add: validate_field_def is_empty_def numeric_rule_def or_default_def
        split: option.splits)
  from money float_1234_56 blanks abc flo int str show ?thesis by blast
qed

text \<open>
  An instance: the \<open>int\<close> 42 and the string \<open>"1e3"\<close>, which \<open>float\<close>
  reads as a thousand.
\<close>

theorem numeric_rule_cleans_witness:
  "\<bar>42 :: int\<bar> < 2 ^ 53
   \<and> validate_field sample_lib (Suc 0) (VInt 42) [config NUMERIC]
       = Inr (result True [] [] (VFloat (Fin 42)))
   \<and> ''1e3'' \<noteq> []
   \<and> validate_field sample_lib (Suc 0) (VStr ''1e3'') [config NUMERIC]
       = Inr (result True [] [] (VFloat (Fin 1000)))"
proof -
  have parse: "py_float (filter (\<lambda>c. \<not> numeric_noise c) (strip ''1e3'')) = Some (Fin 1000)"
    by (simp add: strip_def char_defs py_float_defs float_defs)
  from numeric_rule_cleans [of sample_lib 0 f 42 "''1e3''" for f] parse
  show ?thesis by simp
qed

text \<open>
  C9 (the code departs from the claim). The claim: validating a cleaned value again
  yields the same cleaned value. The module's own self-test validates
  \<open>"$1,234.56"\<close> with CURRENCY, which yields a valid outcome with the float
  \<open>1234.56\<close>. Validating that float with CURRENCY again yields nothing: the value
  is no string, the branch returns nothing, and the last statement of
  \<open>_apply_rule\<close> raises \<open>NameError\<close>. The claim's own example holds: a float
  validated with NUMERIC comes back as it is.
\<close>

theorem revalidation_examples:
  "validate_field L (Suc d) (VStr ''$1,234.56'') [config CURRENCY]
     = Inr (result True [] [] (VFloat (float_of_ratio False 123456 100)))
   \<and> validate_field L (Suc d) (VFloat (float_of_ratio False 123456 100)) [config CURRENCY]
     = Inl NameError
   \<and> validate_field L (Suc d) (VFloat f) [config NUMERIC]
     = Inr (result True [] [] (VFloat f))"
  by (simp add: validate_field_def is_empty_def currency_rule_def currency_group_def
      char_defs py_float_defs float_of_decimal_def fall_through_def numeric_rule_def)

text \<open>The same at the library of the examples, with a thousand frames.\<close>

theorem revalidation_examples_witness:
  "validate_field sample_lib 1000 (VStr ''$1,234.56'') [config CURRENCY]
     = Inr (result True [] [] (VFloat (float_of_ratio False 123456 100)))
   \<and> validate_field sample_lib 1000 (VFloat (float_of_ratio False 123456 100))
       [config CURRENCY] = Inl NameError
   \<and> validate_field sample_lib 1000 (VFloat (Fin 42)) [config NUMERIC]
     = Inr (result True [] [] (VFloat (Fin 42)))"
  using revalidation_examples [of sample_lib 999 "Fin 42"] by simp

text \<open>
  C10. A string that \<open>strptime\<close> reads both as \<open>%m/%d/%Y\<close> and as
  \<open>%d/%m/%Y\<close> is no \<open>%Y-%m-%d\<close> date, so the loop over the formats returns
  at the second format: the DATE rule yields the month-first date.
\<close>

theorem date_rule_month_first:
  assumes us: "strptime_date s mdY = Some d1"
    and eu: "strptime_date s dmY = Some d2"
    and rule: "rule_type rc = DATE"
  shows "apply_rule L (Suc depth) (VStr s) rc = Inr (result True [] [] (VDate d1))"
proof -
  from us have slash: "CHR ''/'' \<in> set s" by (rule strptime_mdY_slash)
  then have ne: "\<not> is_empty (VStr s)" by (auto simp add: is_empty_def)
  have "strptime_date s Ymd = None"
  proof (cases "strptime_date s Ymd")
    case None
    then show ?thesis .
  next
    case (Some d)
    with strptime_Ymd_no_slash slash show ?thesis by blast
  qed
  with us have "try_formats s date_formats = Some d1"
    by (simp add: date_formats_def)
  with ne rule show ?thesis
    by (simp add: date_rule_def required_missing_def)
qed

text \<open>
  An instance: \<open>"03/04/2024"\<close> is the fourth of March under the second format and
  the third of April under the third, and the rule yields the fourth of March.
\<close>

theorem date_rule_month_first_witness:
  "strptime_date ''03/04/2024'' mdY = Some (Date 2024 3 4)
   \<and> strptime_date ''03/04/2024'' dmY = Some (Date 2024 4 3)
   \<and> rule_type (config DATE) = DATE
   \<and> apply_rule sample_lib (Suc 0) (VStr ''03/04/2024'') (config DATE)
       = Inr (result True [] [] (VDate (Date 2024 3 4)))"
proof -
  have us: "strptime_date ''03/04/2024'' mdY = Some (Date 2024 3 4)"
    by (simp add: date_defs is_digit_def)
  have eu: "strptime_date ''03/04/2024'' dmY = Some (Date 2024 4 3)"
    by (simp add: date_defs is_digit_def)
  have rule: "rule_type (config DATE) = DATE" by simp
  from date_rule_month_first [OF us eu rule, of sample_lib 0] us eu rule
  show ?thesis by (simp del: apply_rule.simps)
qed


end
